theory Spec2Isabelle
  imports Complex_Main
begin

section \<open>Account lockout (class AccountLockout)\<close>

text \<open>
  The lockout tracker keeps one record per normalised e-mail address in a JavaScript
  \<open>Map\<close>. Every method reads the clock with \<open>Date.now()\<close>; the model takes that
  reading as the argument \<open>now\<close> (milliseconds since the epoch, an integer). The
  constructor's three settings are constants of the object.
\<close>

record lockout_record =
  count :: nat
  last :: int
  ips :: "string list"
  locked :: "int option"

type_synonym attempts = "string \<rightharpoonup> lockout_record"

definition max_attempts :: nat where
  "max_attempts = 5"

definition lockTime :: int where
  "lockTime = 30 * 60 * 1000"

definition resetTime :: int where
  "resetTime = 15 * 60 * 1000"

text \<open>
  \<open>String.prototype.toLowerCase\<close>, on the ASCII letters (addresses are taken to be
  ASCII). The methods below use it only to normalise the key, always through this one
  function.
\<close>

definition lower_char :: "char \<Rightarrow> char" where
  "lower_char c =
     (let n = (of_char c :: nat) in if 65 \<le> n \<and> n \<le> 90 then char_of (n + 32) else c)"

definition toLowerCase :: "string \<Rightarrow> string" where
  "toLowerCase s = map lower_char s"

text \<open>
  JavaScript truthiness of the \<open>locked\<close> field: \<open>null\<close> and the number \<open>0\<close> are
  falsy, every other number is truthy.
\<close>

definition truthy :: "int option \<Rightarrow> bool" where
  "truthy l = (case l of None \<Rightarrow> False | Some v \<Rightarrow> v \<noteq> 0)"

definition recordFailedAttempt :: "attempts \<Rightarrow> int \<Rightarrow> string \<Rightarrow> string \<Rightarrow> attempts" where
  "recordFailedAttempt a now email ip =
     (let key = toLowerCase email in
      case a key of
        None \<Rightarrow> a(key \<mapsto> \<lparr>count = 1, last = now, ips = [ip], locked = None\<rparr>)
      | Some record \<Rightarrow>
          if now - last record > resetTime
          then a(key \<mapsto> \<lparr>count = 1, last = now, ips = [ip], locked = None\<rparr>)
          else
            (let c = count record + 1 in
             a(key \<mapsto> \<lparr>count = c, last = now, ips = ips record @ [ip],
                        locked = (if c \<ge> max_attempts then Some (now + lockTime)
                                  else locked record)\<rparr>)))"

definition recordSuccessfulLogin :: "attempts \<Rightarrow> string \<Rightarrow> attempts" where
  "recordSuccessfulLogin a email = a(toLowerCase email := None)"

text \<open>
  \<open>isLocked\<close> answers \<open>{ locked: false }\<close> or \<open>{ locked: true, remainingMinutes,
  unlockAt }\<close>. \<open>unlockAt\<close> is \<open>new Date(record.locked).toISOString()\<close>, kept here as
  the time value it prints; \<open>toISOString\<close> throws a \<open>RangeError\<close> when the time
  value is outside the range of \<open>Date\<close> (8.64e15 ms either side of the epoch).
  \<open>Math.ceil(d / 60000)\<close> is computed on integers.
\<close>

datatype error = RangeError

datatype lock_status = NotLocked | Locked (remainingMinutes: int) (unlockAt: int)

definition valid_time_value :: "int \<Rightarrow> bool" where
  "valid_time_value v = (\<bar>v\<bar> \<le> 8640000000000000)"

definition ceil_div :: "int \<Rightarrow> int \<Rightarrow> int" where
  "ceil_div d m = - ((- d) div m)"

definition isLocked :: "attempts \<Rightarrow> int \<Rightarrow> string \<Rightarrow> (error + lock_status) \<times> attempts" where
  "isLocked a now email =
     (case a (toLowerCase email) of
        None \<Rightarrow> (Inr NotLocked, a)
      | Some record \<Rightarrow>
          if \<not> truthy (locked record) then (Inr NotLocked, a)
          else
            (let l = the (locked record) in
             if now < l then
               (if valid_time_value l then (Inr (Locked (ceil_div (l - now) 60000) l), a)
                else (Inl RangeError, a))
             else (Inr NotLocked, a(toLowerCase email := None))))"

text \<open>The hourly sweep: \<open>cleanup\<close> drops expired locks that have been quiet for the reset time.\<close>

definition cleanup :: "attempts \<Rightarrow> int \<Rightarrow> attempts" where
  "cleanup a now =
     (\<lambda>key. case a key of
        None \<Rightarrow> None
      | Some rec \<Rightarrow>
          if truthy (locked rec) \<and> the (locked rec) < now \<and> now - last rec > resetTime
          then None else Some rec)"

definition unlockAccount :: "attempts \<Rightarrow> string \<Rightarrow> bool \<times> attempts" where
  "unlockAccount a email =
     (let key = toLowerCase email in
      if a key \<noteq> None then (True, a(key := None)) else (False, a))"

text \<open>
  A history of calls on one \<open>AccountLockout\<close> object, starting from the empty map the
  constructor creates. \<open>Check\<close> and \<open>Unlock\<close> keep only the effect on the map.
\<close>

datatype lockout_op =
    Fail int string string
  | Success string
  | Check int string
  | Sweep int
  | Unlock string

fun lockout_step :: "attempts \<Rightarrow> lockout_op \<Rightarrow> attempts" where
  "lockout_step a (Fail now email ip) = recordFailedAttempt a now email ip"
| "lockout_step a (Success email) = recordSuccessfulLogin a email"
| "lockout_step a (Check now email) = snd (isLocked a now email)"
| "lockout_step a (Sweep now) = cleanup a now"
| "lockout_step a (Unlock email) = snd (unlockAccount a email)"

definition lockout_run :: "lockout_op list \<Rightarrow> attempts" where
  "lockout_run ops = foldl lockout_step Map.empty ops"

text \<open>
  The invariant of a record: a lock that is set belongs to a count of at least
  \<open>max_attempts\<close> and ends \<open>lockTime\<close> after the last failure.
\<close>

definition lock_inv :: "lockout_record \<Rightarrow> bool" where
  "lock_inv r = (case locked r of None \<Rightarrow> True
                 | Some l \<Rightarrow> max_attempts \<le> count r \<and> l = last r + lockTime)"

definition all_inv :: "attempts \<Rightarrow> bool" where
  "all_inv a = (\<forall>k r. a k = Some r \<longrightarrow> lock_inv r)"

text \<open>
  A run of failures for one identity, given by its clock readings and source addresses;
  \<open>within_window\<close> says that no reading is more than \<open>resetTime\<close> after the one
  before it.
\<close>

fun within_window :: "int list \<Rightarrow> bool" where
  "within_window (t # t' # ts) = (t' - t \<le> resetTime \<and> within_window (t' # ts))"
| "within_window _ = True"

definition failures :: "attempts \<Rightarrow> string \<Rightarrow> (int \<times> string) list \<Rightarrow> attempts" where
  "failures a email fs = foldl (\<lambda>a' (t, ip). recordFailedAttempt a' t email ip) a fs"

text \<open>Example histories used to exercise the theorems below.\<close>

definition ops5 :: "lockout_op list" where
  "ops5 = [Fail 0 ''user@example.com'' ''203.0.113.7'', Fail 1000 ''User@example.com'' ''203.0.113.7'',
           Fail 2000 ''user@example.com'' ''203.0.113.8'', Fail 3000 ''user@example.com'' ''203.0.113.7'',
           Fail 4000 ''USER@example.com'' ''203.0.113.7'']"

definition fails5 :: "(int \<times> string) list" where
  "fails5 = [(0, ''203.0.113.7''), (1000, ''203.0.113.7''), (2000, ''203.0.113.8''),
             (3000, ''203.0.113.7''), (4000, ''203.0.113.7'')]"

section \<open>Fraud detection (class FraudDetectionSystem)\<close>

text \<open>
  \<open>analyzeTransaction(t)\<close> reads \<open>t.id\<close>, \<open>t.userId\<close>, \<open>t.amount\<close> and \<open>t.ip\<close>.
  Amounts are JavaScript numbers; the model takes them as (finite) reals, on which
  \<open>>\<close> and \<open>===\<close> are exact.
\<close>

record transaction =
  tx_id :: string
  userId :: string
  amount :: real
  tx_ip :: string

text \<open>A row of the transaction history, of which the scorer reads \<open>amount\<close> only.\<close>

record history_row =
  row_userId :: string
  row_amount :: real
  createdAt :: int

definition HIGH_VALUE_threshold :: real where
  "HIGH_VALUE_threshold = 1000"

definition VELOCITY_threshold :: nat where
  "VELOCITY_threshold = 5"

text \<open>
  The store of transactions, as the rows it holds. \<open>requested_rows\<close> are the rows the
  query object \<open>{ userId, createdAt: { $gte: now - ms } }\<close> asks for.
\<close>

definition requested_rows :: "history_row list \<Rightarrow> string \<Rightarrow> int \<Rightarrow> history_row list" where
  "requested_rows store uid since =
     filter (\<lambda>r. row_userId r = uid \<and> since \<le> createdAt r) store"

text \<open>
  \<open>getRecentTransactions(userId, ms)\<close> evaluates
  \<open>Transaction.find({ userId, createdAt: { $gte: now - ms } }).sort({ createdAt: -1 })\<close>
  inside \<open>try\<close> and answers \<open>[]\<close> when that throws. The module imports \<open>chalk\<close>,
  \<open>mongoose\<close> and \<open>crypto\<close> and declares six models, none of them named
  \<open>Transaction\<close>, and no global of that name is set anywhere: evaluating the name throws
  a \<open>ReferenceError\<close> before any query reaches the store, whatever the store holds.
\<close>

datatype lookup_error = ReferenceError

definition Transaction_find ::
  "history_row list \<Rightarrow> string \<Rightarrow> int \<Rightarrow> lookup_error + history_row list" where
  "Transaction_find store uid since = Inl ReferenceError"

definition getRecentTransactions ::
  "history_row list \<Rightarrow> int \<Rightarrow> string \<Rightarrow> int \<Rightarrow> history_row list" where
  "getRecentTransactions store now uid ms =
     (case Transaction_find store uid (now - ms) of Inr rows \<Rightarrow> rows | Inl e \<Rightarrow> [])"

text \<open>
  \<open>checkIPReputation\<close> tests the address against three anchored patterns: a prefix
  \<open>10.\<close>, a prefix \<open>192.168.\<close>, and a prefix \<open>172.\<close> followed by \<open>16\<close> to \<open>31\<close>
  (written \<open>1[6-9]|2[0-9]|3[0-1]\<close>) and a dot.
\<close>

definition matches_10 :: "string \<Rightarrow> bool" where
  "matches_10 s = (take 3 s = ''10.'')"

definition matches_192_168 :: "string \<Rightarrow> bool" where
  "matches_192_168 s = (take 8 s = ''192.168.'')"

definition matches_172 :: "string \<Rightarrow> bool" where
  "matches_172 s =
     (take 4 s = ''172.'' \<and>
      (case drop 4 s of
         d1 # d2 # d3 # _ \<Rightarrow>
           ((d1 = CHR ''1'' \<and> d2 \<in> set ''6789'') \<or>
            (d1 = CHR ''2'' \<and> d2 \<in> set ''0123456789'') \<or>
            (d1 = CHR ''3'' \<and> d2 \<in> set ''01'')) \<and> d3 = CHR ''.''
       | _ \<Rightarrow> False))"

record ip_reputation =
  rep_ip :: string
  isProxy :: bool
  isTor :: bool
  isVPN :: bool
  rep_riskScore :: nat

definition checkIPReputation :: "string \<Rightarrow> ip_reputation" where
  "checkIPReputation a =
     (let isProxy = (matches_10 a \<or> matches_192_168 a \<or> matches_172 a) in
      \<lparr>rep_ip = a, isProxy = isProxy, isTor = False, isVPN = False,
       rep_riskScore = (if isProxy then 20 else 0)\<rparr>)"

datatype flag = HIGH_VELOCITY | HIGH_VALUE | DUPLICATE | SUSPICIOUS_IP

datatype decision = BLOCKED | APPROVED

datatype severity = CRITICAL | HIGH | MEDIUM | LOW | INFO

text \<open>The security event handed to \<open>auditLogger.logSecurityEvent\<close>.\<close>

record fraud_event =
  ev_userId :: string
  ev_action :: string
  ev_resource :: string
  ev_result :: decision
  ev_ip :: string
  ev_severity :: severity
  ev_transactionId :: string
  ev_score :: nat
  ev_flags :: "flag list"
  ev_review :: bool

record fraud_assessment =
  approved :: bool
  riskScore :: nat
  flags :: "flag list"
  requiresManualReview :: bool
  decision :: decision

text \<open>
  The scorer returns its assessment and emits one security event; the logger catches a
  failing write itself, so the assessment is returned either way.
  \<open>analyze_with_recent\<close> is the body of \<open>analyzeTransaction\<close> from the velocity rule
  on, for a given value of \<open>recent\<close>; \<open>analyzeTransaction\<close> runs it on what
  \<open>getRecentTransactions(t.userId, 600000)\<close> answers.
\<close>

definition analyze_with_recent ::
  "transaction \<Rightarrow> history_row list \<Rightarrow> fraud_assessment \<times> fraud_event" where
  "analyze_with_recent t recent =
     (let (score, flags) = (0, []);
          (score, flags) =
            (if length recent \<ge> VELOCITY_threshold then (score + 30, flags @ [HIGH_VELOCITY])
             else (score, flags));
          (score, flags) =
            (if amount t > HIGH_VALUE_threshold then (score + 20, flags @ [HIGH_VALUE])
             else (score, flags));
          (score, flags) =
            (if length (filter (\<lambda>r. row_amount r = amount t) recent) > 0
             then (score + 25, flags @ [DUPLICATE]) else (score, flags));
          rep = checkIPReputation (tx_ip t);
          (score, flags) =
            (if isProxy rep \<or> isTor rep then (score + 40, flags @ [SUSPICIOUS_IP])
             else (score, flags));
          decision = (if score > 50 then BLOCKED else APPROVED);
          event = \<lparr>ev_userId = userId t, ev_action = ''FRAUD_CHECK'',
                   ev_resource = ''TRANSACTION'', ev_result = decision, ev_ip = tx_ip t,
                   ev_severity = (if decision = BLOCKED then CRITICAL else INFO),
                   ev_transactionId = tx_id t, ev_score = score, ev_flags = flags,
                   ev_review = (score > 30 \<and> score \<le> 50)\<rparr>
      in (\<lparr>approved = (score \<le> 50), riskScore = score, flags = flags,
           requiresManualReview = (score > 30 \<and> score \<le> 50), decision = decision\<rparr>,
          event))"

definition analyzeTransaction ::
  "transaction \<Rightarrow> history_row list \<Rightarrow> int \<Rightarrow> fraud_assessment \<times> fraud_event" where
  "analyzeTransaction t store now =
     analyze_with_recent t (getRecentTransactions store now (userId t) 600000)"

text \<open>
  Example inputs for the scorer: a store holding five transactions of user \<open>u1\<close>, one
  of them of amount 1500, and two transactions that differ in identifier and user.
\<close>

definition history5 :: "history_row list" where
  "history5 =
     [\<lparr>row_userId = ''u1'', row_amount = 20, createdAt = 100000\<rparr>,
      \<lparr>row_userId = ''u1'', row_amount = 1500, createdAt = 90000\<rparr>,
      \<lparr>row_userId = ''u1'', row_amount = 35, createdAt = 80000\<rparr>,
      \<lparr>row_userId = ''u1'', row_amount = 40, createdAt = 70000\<rparr>,
      \<lparr>row_userId = ''u1'', row_amount = 12, createdAt = 60000\<rparr>]"

definition tx_example :: transaction where
  "tx_example = \<lparr>tx_id = ''t-100'', userId = ''u1'', amount = 1500, tx_ip = ''203.0.113.7''\<rparr>"

definition tx_other :: transaction where
  "tx_other = \<lparr>tx_id = ''t-200'', userId = ''u2'', amount = 1500, tx_ip = ''203.0.113.7''\<rparr>"

section \<open>Audit log schemas\<close>

text \<open>
  Each audit category has its own mongoose schema and collection. The shared \<open>base\<close>
  fields mark \<open>timestamp\<close> with \<open>index: true\<close>, and each schema then declares
  \<open>index({ timestamp: 1 }, { expireAfterSeconds: n })\<close>. A schema is kept here as its
  collection name and the indexes it declares, in order.
\<close>

datatype category = FINANCIAL | SECURITY | CONFIDENTIAL | PRIVACY

record index_decl =
  index_field :: string
  expireAfterSeconds :: "nat option"

record schema =
  collection :: string
  indexes :: "index_decl list"

definition base_indexes :: "index_decl list" where
  "base_indexes = [\<lparr>index_field = ''timestamp'', expireAfterSeconds = None\<rparr>]"

definition FinancialSchema :: schema where
  "FinancialSchema =
     \<lparr>collection = ''financial_audit_logs'',
      indexes = base_indexes @
        [\<lparr>index_field = ''timestamp'', expireAfterSeconds = Some 220752000\<rparr>]\<rparr>"

definition SecuritySchema :: schema where
  "SecuritySchema =
     \<lparr>collection = ''security_audit_logs'',
      indexes = base_indexes @
        [\<lparr>index_field = ''timestamp'', expireAfterSeconds = Some 7776000\<rparr>]\<rparr>"

definition ConfidentialSchema :: schema where
  "ConfidentialSchema =
     \<lparr>collection = ''confidential_access_logs'',
      indexes = base_indexes @
        [\<lparr>index_field = ''timestamp'', expireAfterSeconds = Some 7776000\<rparr>]\<rparr>"

definition PrivacySchema :: schema where
  "PrivacySchema =
     \<lparr>collection = ''privacy_audit_logs'',
      indexes = base_indexes @
        [\<lparr>index_field = ''timestamp'', expireAfterSeconds = Some 220752000\<rparr>]\<rparr>"

fun schema_of :: "category \<Rightarrow> schema" where
  "schema_of FINANCIAL = FinancialSchema"
| "schema_of SECURITY = SecuritySchema"
| "schema_of CONFIDENTIAL = ConfidentialSchema"
| "schema_of PRIVACY = PrivacySchema"

text \<open>The retention times a schema declares: the expiry of each of its TTL indexes.\<close>

definition declared_retention :: "schema \<Rightarrow> (string \<times> nat) list" where
  "declared_retention s =
     concat (map (\<lambda>i. case expireAfterSeconds i of None \<Rightarrow> [] | Some n \<Rightarrow> [(index_field i, n)])
                 (indexes s))"

text \<open>
  The retention policy in the words of the specification: 90 days for security and
  confidential events, 7 years (of 365 days) for financial and privacy events.
\<close>

definition seconds_per_day :: nat where
  "seconds_per_day = 24 * 60 * 60"

fun policy_retention_seconds :: "category \<Rightarrow> nat" where
  "policy_retention_seconds SECURITY = 90 * seconds_per_day"
| "policy_retention_seconds CONFIDENTIAL = 90 * seconds_per_day"
| "policy_retention_seconds FINANCIAL = 7 * 365 * seconds_per_day"
| "policy_retention_seconds PRIVACY = 7 * 365 * seconds_per_day"

section \<open>Compliance monitor (class ComplianceMonitor)\<close>

subsection \<open>Numbers as text\<close>

text \<open>Template literals print a non-negative integer in decimal.\<close>

definition digit_char :: "nat \<Rightarrow> char" where
  "digit_char n = ''0123456789'' ! n"

fun show_nat :: "nat \<Rightarrow> string" where
  "show_nat n = (if n < 10 then [digit_char n] else show_nat (n div 10) @ [digit_char (n mod 10)])"

declare show_nat.simps [simp del]

definition pad_zeros :: "nat \<Rightarrow> string \<Rightarrow> string" where
  "pad_zeros d s = replicate (d - length s) (CHR ''0'') @ s"

text \<open>
  JavaScript numbers are IEEE 754 doubles: every division and multiplication is rounded to
  the nearest number with a significand of 53 bits, to the even significand at a tie. A
  non-negative double is kept here as a fraction \<open>(n, d)\<close> with \<open>d\<close> a power of two.
  \<open>to_double N D\<close> is the double nearest to the quotient \<open>N / D\<close> of two positive
  integers: with \<open>e\<close> the exponent of the quotient (\<open>2^e \<le> N / D < 2^(e + 1)\<close>, found
  from the lengths in bits of \<open>N\<close> and \<open>D\<close>), the quotient is rounded to a multiple of
  \<open>2^(e - 52)\<close>. (Counts are below \<open>2^53\<close>, so they are doubles themselves, and the
  values that arise are far from the subnormal and the overflow range.)
\<close>

fun bit_length :: "nat \<Rightarrow> nat" where
  "bit_length n = (if n = 0 then 0 else Suc (bit_length (n div 2)))"

declare bit_length.simps [simp del]

definition round_half_even :: "nat \<Rightarrow> nat \<Rightarrow> nat" where
  "round_half_even N D =
     (let q = N div D; r = N mod D in
      if 2 * r < D then q else if D < 2 * r then q + 1 else if even q then q else q + 1)"

definition to_double :: "nat \<Rightarrow> nat \<Rightarrow> nat \<times> nat" where
  "to_double N D =
     (if N = 0 then (0, 1)
      else
        (let a = bit_length N; b = bit_length D;
             e = (if D * 2 ^ a \<le> N * 2 ^ b then int a - int b else int a - int b - 1);
             s = 52 - e
         in if 0 \<le> s then (round_half_even (N * 2 ^ nat s) D, 2 ^ nat s)
            else (round_half_even N (D * 2 ^ nat (- s)) * 2 ^ nat (- s), 1)))"

text \<open>
  \<open>x.toFixed(d)\<close> prints the multiple of \<open>10^-d\<close> nearest to the double \<open>x\<close>
  itself, the larger one at a tie (for \<open>x\<close> below \<open>10^21\<close>).
\<close>

definition toFixed :: "nat \<Rightarrow> nat \<times> nat \<Rightarrow> string" where
  "toFixed d x =
     (let n = (2 * (fst x * 10 ^ d) + snd x) div (2 * snd x) in
      show_nat (n div 10 ^ d) @
        (if d = 0 then [] else ''.'' @ pad_zeros d (show_nat (n mod 10 ^ d))))"

text \<open>
  \<open>((p / t) * 100).toFixed(d)\<close> for two counts \<open>p\<close> and \<open>t\<close>: the quotient is
  rounded to a double, its product with 100 is rounded again, and the result is printed.
  \<open>0 / 0\<close> is \<open>NaN\<close> and \<open>p / 0\<close> is \<open>Infinity\<close>.
\<close>

definition percentFixed :: "nat \<Rightarrow> nat \<Rightarrow> nat \<Rightarrow> string" where
  "percentFixed d p t =
     (if t = 0 then (if p = 0 then ''NaN'' else ''Infinity'')
      else
        (let q = to_double p t;
             x = to_double (fst q * 100) (snd q)
         in toFixed d x))"

text \<open>
  \<open>parseInt(s)\<close> without a radix: leading white space is skipped, then an optional sign,
  then an optional \<open>0x\<close> prefix selecting radix 16, then the longest run of digits;
  \<open>None\<close> stands for \<open>NaN\<close>. (The result is exact below \<open>2^53\<close>.)
\<close>

definition is_space :: "char \<Rightarrow> bool" where
  "is_space c = ((of_char c :: nat) \<in> {9, 10, 11, 12, 13, 32})"

definition digit_value :: "char \<Rightarrow> nat option" where
  "digit_value c =
     (let n = (of_char c :: nat) in
      if 48 \<le> n \<and> n \<le> 57 then Some (n - 48)
      else if 97 \<le> n \<and> n \<le> 102 then Some (n - 87)
      else if 65 \<le> n \<and> n \<le> 70 then Some (n - 55)
      else None)"

definition is_digit :: "nat \<Rightarrow> char \<Rightarrow> bool" where
  "is_digit radix c = (case digit_value c of None \<Rightarrow> False | Some v \<Rightarrow> v < radix)"

definition digits_value :: "nat \<Rightarrow> string \<Rightarrow> nat" where
  "digits_value radix ds = foldl (\<lambda>acc c. acc * radix + the (digit_value c)) 0 ds"

definition parseInt :: "string \<Rightarrow> int option" where
  "parseInt s =
     (let s1 = dropWhile is_space s;
          (sign, s2) =
            (case s1 of
               c # rest \<Rightarrow>
                 if c = CHR ''-'' then (- 1, rest)
                 else if c = CHR ''+'' then (1, rest) else (1 :: int, s1)
             | [] \<Rightarrow> (1, s1));
          (radix, s3) =
            (if take 2 s2 = ''0x'' \<or> take 2 s2 = ''0X'' then (16, drop 2 s2) else (10 :: nat, s2));
          z = takeWhile (is_digit radix) s3
      in if z = [] then None else Some (sign * int (digits_value radix z)))"

definition endsWith :: "string \<Rightarrow> char \<Rightarrow> bool" where
  "endsWith s c = (s \<noteq> [] \<and> List.last s = c)"

subsection \<open>What the checks read\<close>

text \<open>
  The checks read the process environment, the state of the mongoose connection and the
  audit collection. A store query either answers a count or throws an error with a
  message (\<open>Inl\<close>): \<open>db_test_query\<close> is \<open>countDocuments().maxTimeMS(5000)\<close> in
  \<open>checkDatabase\<close>; \<open>logs_recent\<close> and \<open>logs_total\<close> are the two counts of
  \<open>checkLogs\<close>. Environment variables are taken to be ASCII, so that \<open>length\<close>
  counts what \<open>.length\<close> counts.
\<close>

record environment =
  SECRET_TOKEN :: "string option"
  JWT_EXPIRES_TIME :: "string option"
  JWT_REFRESH_EXPIRES_TIME :: "string option"
  readyState :: int
  db_test_query :: "string + nat"
  logs_recent :: "string + nat"
  logs_total :: "string + nat"

text \<open>
  A check's result. The fields \<open>checkedAt\<close>, \<open>allowedOrigins\<close>, \<open>currentExpiration\<close>
  and \<open>recommended\<close>, which some results also carry, are read nowhere by the runner and are
  left out.
\<close>

record check_result =
  control :: string
  name :: string
  passed :: bool
  issues :: "string list"

text \<open>An environment variable is falsy when it is unset or empty.\<close>

definition unset :: "string option \<Rightarrow> bool" where
  "unset v = (case v of None \<Rightarrow> True | Some s \<Rightarrow> s = [])"

definition checkAuth :: "environment \<Rightarrow> check_result" where
  "checkAuth env =
     (let issues = [];
          issues =
            (if unset (SECRET_TOKEN env) \<or> length (the (SECRET_TOKEN env)) < 32
             then issues @ [''JWT secret not configured or too weak''] else issues)
      in \<lparr>control = ''CC6.1'', name = ''Authentication Controls'',
          passed = (length issues = 0), issues = issues\<rparr>)"

definition checkEncryption :: check_result where
  "checkEncryption =
     (let issues = []
      in \<lparr>control = ''CC6.3/CC6.4'', name = ''Encryption Controls'',
          passed = (length issues = 0), issues = issues\<rparr>)"

definition stateMap :: "int \<Rightarrow> string option" where
  "stateMap s =
     (if s = 0 then Some ''disconnected'' else if s = 2 then Some ''connecting''
      else if s = 3 then Some ''disconnecting'' else None)"

definition checkDatabase :: "environment \<Rightarrow> check_result" where
  "checkDatabase env =
     (let issues = [];
          dbState = readyState env;
          issues =
            (if dbState \<noteq> 1
             then issues @
               [''Database not connected: '' @
                  (case stateMap dbState of Some n \<Rightarrow> n | None \<Rightarrow> ''unknown state'')]
             else issues);
          issues =
            (case db_test_query env of
               Inr testQuery \<Rightarrow> issues
             | Inl message \<Rightarrow> issues @ [''Database connectivity error: '' @ message])
      in \<lparr>control = ''A1.2'', name = ''Database Connectivity'',
          passed = (length issues = 0), issues = issues\<rparr>)"

definition checkLogs :: "environment \<Rightarrow> check_result" where
  "checkLogs env =
     (let issues = [];
          issues =
            (case logs_recent env of
               Inl message \<Rightarrow> issues @ [''Error checking logs: '' @ message]
             | Inr recent \<Rightarrow>
                 if recent = 0 then
                   (case logs_total env of
                      Inl message \<Rightarrow> issues @ [''Error checking logs: '' @ message]
                    | Inr total' \<Rightarrow>
                        if total' > 10
                        then issues @
                          [''No security audit logs in the last hour (may indicate logging failure)'']
                        else issues)
                 else issues)
      in \<lparr>control = ''C1.2'', name = ''Access Log Controls'',
          passed = (length issues = 0), issues = issues\<rparr>)"

definition checkRateLimit :: check_result where
  "checkRateLimit =
     (let issues = []
      in \<lparr>control = ''CC6.1'', name = ''Rate Limiting Controls'',
          passed = (length issues = 0), issues = issues\<rparr>)"

definition checkCORS :: check_result where
  "checkCORS =
     (let issues = [];
          allowed = [''http://localhost:5173'', ''https://www.avgallery.shop'',
                     ''https://avgallery.shop''];
          issues = (if length allowed = 0 then issues @ [''CORS whitelist is empty''] else issues);
          issues = (if list_ex (\<lambda>o'. o' = ''*'') allowed then issues @ [''CORS uses wildcard'']
                    else issues)
      in \<lparr>control = ''CC6.2'', name = ''CORS Configuration'',
          passed = (length issues = 0), issues = issues\<rparr>)"

definition MAX_HOURS :: int where
  "MAX_HOURS = 6"

definition exceeds :: "int option \<Rightarrow> int \<Rightarrow> bool" where
  "exceeds hours bound = (case hours of None \<Rightarrow> False | Some h \<Rightarrow> h > bound)"

definition checkTokenExpiry :: "environment \<Rightarrow> check_result" where
  "checkTokenExpiry env =
     (let issues = [];
          expiry = (if unset (JWT_EXPIRES_TIME env) then ''24h'' else the (JWT_EXPIRES_TIME env));
          hours = (if endsWith expiry (CHR ''h'') then parseInt expiry
                   else map_option (\<lambda>h. h * 24) (parseInt expiry));
          issues =
            (if exceeds hours MAX_HOURS
             then issues @
               [''Token expiration exceeds recommendation: '' @ show_nat (nat (the hours)) @
                ''h > '' @ show_nat (nat MAX_HOURS) @ ''h'']
             else issues);
          issues =
            (if unset (JWT_REFRESH_EXPIRES_TIME env) \<and> exceeds hours 12
             then issues @ [''Long token expiration without refresh token system'']
             else issues)
      in \<lparr>control = ''CC6.1'', name = ''Token Expiration Policy'',
          passed = (length issues = 0), issues = issues\<rparr>)"

subsection \<open>The runner\<close>

text \<open>
  The object keeps \<open>results\<close>, a \<open>Map\<close> from the clock reading at the end of a run to
  that run's summary (in insertion order; \<open>set\<close> on a key already present replaces the
  value in place), and \<open>auditLog\<close>, the in-memory tail of at most 1000 entries.
\<close>

record metadata =
  meta_totalChecks :: nat
  meta_passed :: nat
  meta_failed :: nat
  meta_passRate :: string
  meta_failedChecks :: "string list"

record audit_entry =
  log_timestamp :: int
  log_type :: string
  log_category :: string
  log_message :: string
  log_severity :: severity
  log_status :: string
  log_details :: metadata

record summary =
  timestamp :: int
  totalChecks :: nat
  passed :: nat
  failed :: nat
  passRate :: string
  details :: "check_result list"

record monitor =
  results :: "(int \<times> summary) list"
  auditLog :: "audit_entry list"

fun map_set :: "('k \<times> 'v) list \<Rightarrow> 'k \<Rightarrow> 'v \<Rightarrow> ('k \<times> 'v) list" where
  "map_set [] k v = [(k, v)]"
| "map_set ((k', v') # es) k v = (if k' = k then (k, v) # es else (k', v') # map_set es k v)"

text \<open>The three clock readings of a run that end up in the object or the summary.\<close>

record run_clock =
  event_time :: int
  summary_time :: int
  key_time :: int

text \<open>
  \<open>runContinuousChecks\<close> awaits the seven checks, which all resolve (the two that query
  the store catch its errors themselves). Writing the event to the audit collection and
  sending the alert are wrapped in handlers that log a failure to the console; they change
  neither the object nor the summary and are not part of the model.
\<close>

definition runContinuousChecks ::
  "environment \<Rightarrow> run_clock \<Rightarrow> monitor \<Rightarrow> summary \<times> monitor" where
  "runContinuousChecks env clock m =
     (let checks = [checkAuth env, checkEncryption, checkDatabase env, checkLogs env,
                    checkRateLimit, checkCORS, checkTokenExpiry env];
          failed = filter (\<lambda>r. \<not> check_result.passed r) checks;
          total = length checks;
          passed = total - length failed;
          result = (if length failed = 0 then ''SUCCESS'' else ''FAILURE'');
          sev = (if length failed = 0 then LOW else if length failed > 3 then HIGH else MEDIUM);
          meta = \<lparr>meta_totalChecks = total, meta_passed = passed, meta_failed = length failed,
                  meta_passRate = percentFixed 1 passed total @ ''%'',
                  meta_failedChecks = map name failed\<rparr>;
          entry = \<lparr>log_timestamp = event_time clock, log_type = ''SECURITY'',
                   log_category = ''COMPLIANCE_CHECK'',
                   log_message = ''Compliance check: '' @ result @ '' ('' @ show_nat passed @
                                 ''/'' @ show_nat total @ '' passed)'',
                   log_severity = sev, log_status = result, log_details = meta\<rparr>;
          log = auditLog m @ [entry];
          log = (if length log > 1000 then drop (length log - 1000) log else log);
          summary = \<lparr>timestamp = summary_time clock, totalChecks = total, passed = passed,
                     failed = length failed,
                     passRate = percentFixed 1 passed total @ ''%'', details = checks\<rparr>
      in (summary, \<lparr>results = map_set (results m) (key_time clock) summary, auditLog = log\<rparr>))"

subsection \<open>The report\<close>

text \<open>
  \<open>ms[period] || ms['24h']\<close> looks the period up in an object literal. A period that is
  no key of the table but names a property every object inherits (for example
  \<open>toString\<close>) finds that property, which is truthy and not a number, so that \<open>start\<close>
  is \<open>NaN\<close> (\<open>None\<close> here) and no entry passes \<open>t >= start\<close>.
\<close>

definition ms_table :: "string \<Rightarrow> int option" where
  "ms_table p =
     (if p = ''1h'' then Some 3600000 else if p = ''24h'' then Some 86400000
      else if p = ''7d'' then Some 604800000 else if p = ''30d'' then Some 2592000000
      else None)"

definition inherited_properties :: "string list" where
  "inherited_properties =
     [''constructor'', ''hasOwnProperty'', ''isPrototypeOf'', ''propertyIsEnumerable'',
      ''toLocaleString'', ''toString'', ''valueOf'', ''__proto__'', ''__defineGetter__'',
      ''__defineSetter__'', ''__lookupGetter__'', ''__lookupSetter__'']"

definition report_start :: "int \<Rightarrow> string \<Rightarrow> int option" where
  "report_start now p =
     (case ms_table p of
        Some w \<Rightarrow> Some (now - w)
      | None \<Rightarrow> if p \<in> set inherited_properties then None else Some (now - the (ms_table ''24h'')))"

datatype compliance_status = COMPLIANT | NON_COMPLIANT

record report_body =
  period :: string
  startTime :: int
  endTime :: int
  totalRuns :: nat
  totalChecks :: nat
  totalPassed :: nat
  totalFailed :: nat
  averagePassRate :: string
  complianceStatus :: compliance_status
  results :: "summary list"

datatype report =
    NoChecksRun string string int
  | Report report_body

text \<open>
  \<open>generateReport(period = '24h')\<close>: \<open>now\<close> is the reading of \<open>Date.now()\<close>,
  \<open>stamp\<close> the later reading that dates the answer when no run is selected. The three
  \<open>reduce\<close> calls add counts, which are exact as doubles (sums stay below \<open>2^53\<close>).
\<close>

definition generateReport :: "monitor \<Rightarrow> int \<Rightarrow> int \<Rightarrow> string option \<Rightarrow> report" where
  "generateReport m now stamp period_arg =
     (let period = (case period_arg of None \<Rightarrow> ''24h'' | Some p \<Rightarrow> p);
          start = report_start now period;
          results =
            map snd (filter (\<lambda>(t, r). case start of None \<Rightarrow> False | Some s \<Rightarrow> t \<ge> s)
                            (monitor.results m))
      in if length results = 0 then NoChecksRun period ''No checks run'' stamp
         else
           (let total = foldl (\<lambda>s r. s + summary.totalChecks r) 0 results;
                passed = foldl (\<lambda>s r. s + summary.passed r) 0 results;
                failed = foldl (\<lambda>s r. s + summary.failed r) 0 results
            in Report
                 \<lparr>period = period, startTime = the start, endTime = now,
                  totalRuns = length results, totalChecks = total, totalPassed = passed,
                  totalFailed = failed,
                  averagePassRate = percentFixed 2 passed total @ ''%'',
                  complianceStatus = (if failed = 0 then COMPLIANT else NON_COMPLIANT),
                  results = results\<rparr>))"

subsection \<open>The specification's wording, and example inputs\<close>

text \<open>
  The percentage \<open>100 * p / t\<close> rounded to \<open>d\<close> decimals in exact arithmetic (the
  larger neighbour at a tie), counted in units of \<open>10^-d\<close>.
\<close>

definition percent_scaled :: "nat \<Rightarrow> nat \<Rightarrow> nat \<Rightarrow> nat" where
  "percent_scaled d p t = (2 * (p * 100 * 10 ^ d) + t) div (2 * t)"

text \<open>
  The specification describes \<open>passRate\<close> as \<open>passed/total\<close> to two decimals:
  \<open>ratioFixed d p t\<close> is the quotient \<open>p / t\<close> printed with \<open>d\<close> decimals, rounded
  in the same way.
\<close>

definition ratioFixed :: "nat \<Rightarrow> nat \<Rightarrow> nat \<Rightarrow> string" where
  "ratioFixed d p t =
     (if t = 0 then (if p = 0 then ''NaN'' else ''Infinity'')
      else
        (let n = (2 * (p * 10 ^ d) + t) div (2 * t) in
         show_nat (n div 10 ^ d) @
           (if d = 0 then [] else ''.'' @ pad_zeros d (show_nat (n mod 10 ^ d)))))"

definition spec_passRate :: "nat \<Rightarrow> nat \<Rightarrow> string" where
  "spec_passRate p t = ratioFixed 2 p t"

text \<open>
  The report's window in the specification's words: one hour, 24 hours, 7 days or 30 days,
  and 24 hours for any other period. The runs of a window are the stored runs whose key is
  not older than the window, in the order of the \<open>Map\<close>.
\<close>

definition spec_window :: "string \<Rightarrow> int" where
  "spec_window p =
     (if p = ''1h'' then 60 * 60 * 1000 else if p = ''24h'' then 24 * 60 * 60 * 1000
      else if p = ''7d'' then 7 * 24 * 60 * 60 * 1000
      else if p = ''30d'' then 30 * 24 * 60 * 60 * 1000
      else 24 * 60 * 60 * 1000)"

definition runs_in_window :: "monitor \<Rightarrow> int \<Rightarrow> string \<Rightarrow> summary list" where
  "runs_in_window m now p = [r. (t, r) \<leftarrow> monitor.results m, now - spec_window p \<le> t]"

text \<open>The compliance status a report states, if it states one.\<close>

definition reported_status :: "report \<Rightarrow> compliance_status option" where
  "reported_status r = (case r of NoChecksRun _ _ _ \<Rightarrow> None | Report b \<Rightarrow> Some (complianceStatus b))"

text \<open>
  Example environments: all checks passing; a secret that is too short; the store down,
  with the connection closed and every query failing.
\<close>

definition env_ok :: environment where
  "env_ok = \<lparr>SECRET_TOKEN = Some ''0123456789abcdef0123456789abcdef'',
             JWT_EXPIRES_TIME = Some ''6h'', JWT_REFRESH_EXPIRES_TIME = None,
             readyState = 1, db_test_query = Inr 42, logs_recent = Inr 3, logs_total = Inr 42\<rparr>"

definition env_weak_secret :: environment where
  "env_weak_secret = env_ok\<lparr>SECRET_TOKEN := Some ''secret''\<rparr>"

definition env_db_down :: environment where
  "env_db_down = env_ok\<lparr>readyState := 0, db_test_query := Inl ''timeout'',
                         logs_recent := Inl ''timeout''\<rparr>"

definition clock0 :: run_clock where
  "clock0 = \<lparr>event_time = 1000, summary_time = 1001, key_time = 1002\<rparr>"

text \<open>A fresh monitor, and the monitor after one run in which every check passed.\<close>

definition monitor0 :: monitor where
  "monitor0 = \<lparr>monitor.results = [], auditLog = []\<rparr>"

definition monitor1 :: monitor where
  "monitor1 = snd (runContinuousChecks env_ok clock0 \<lparr>monitor.results = [], auditLog = []\<rparr>)"

section \<open>Properties of the lockout tracker\<close>

subsection \<open>Auxiliary facts\<close>

lemma rfa_inv:
  assumes "all_inv a" shows "all_inv (recordFailedAttempt a now email ip)"
proof -
  have "lock_inv r'" if h: "recordFailedAttempt a now email ip k = Some r'" for k r'
  proof (cases "k = toLowerCase email")
    case False
    with h have "a k = Some r'" by (simp add: recordFailedAttempt_def Let_def split: option.splits if_splits)
    with assms show ?thesis by (simp add: all_inv_def)
  next
    case True
    show ?thesis
    proof (cases "a (toLowerCase email)")
      case None
      with h True show ?thesis by (auto simp: recordFailedAttempt_def lock_inv_def)
    next
      case (Some r)
      with assms have "lock_inv r" by (simp add: all_inv_def)
      with h True Some show ?thesis
        by (auto simp: recordFailedAttempt_def lock_inv_def Let_def split: option.splits if_splits)
    qed
  qed
  then show ?thesis by (simp add: all_inv_def)
qed

lemma step_inv: "all_inv a \<Longrightarrow> all_inv (lockout_step a op)"
proof (cases op)
  case (Fail now email ip)
  assume "all_inv a"
  then show ?thesis using Fail by (simp add: rfa_inv)
qed (auto simp: all_inv_def recordSuccessfulLogin_def
        isLocked_def cleanup_def unlockAccount_def Let_def
        split: option.splits if_splits)

lemma run_inv_aux: "all_inv a \<Longrightarrow> all_inv (foldl lockout_step a ops)"
  by (induction ops arbitrary: a) (simp_all add: step_inv)

lemma run_inv: "all_inv (lockout_run ops)"
  unfolding lockout_run_def by (rule run_inv_aux) (simp add: all_inv_def)

lemma rfa_within:
  assumes "a (toLowerCase email) = Some r" "now - last r \<le> resetTime"
  shows "recordFailedAttempt a now email ip (toLowerCase email) =
     Some \<lparr>count = count r + 1, last = now, ips = ips r @ [ip],
           locked = (if max_attempts \<le> count r + 1 then Some (now + lockTime) else locked r)\<rparr>"
  using assms by (simp add: recordFailedAttempt_def Let_def)

lemma rfa_any:
  "\<exists>r. recordFailedAttempt a now email ip (toLowerCase email) = Some r \<and> 1 \<le> count r \<and> last r = now
     \<and> (max_attempts \<le> count r \<longrightarrow> locked r = Some (now + lockTime))"
  by (auto simp add: recordFailedAttempt_def Let_def max_attempts_def split: option.splits)

lemma failures_within:
  assumes "a (toLowerCase email) = Some r" "within_window (last r # map fst fs)" "fs \<noteq> []"
  shows "\<exists>r'. failures a email fs (toLowerCase email) = Some r' \<and> count r' = count r + length fs
     \<and> last r' = fst (List.last fs)
     \<and> (max_attempts \<le> count r' \<longrightarrow> locked r' = Some (fst (List.last fs) + lockTime))"
  using assms
proof (induction fs arbitrary: a r)
  case Nil
  then show ?case by simp
next
  case (Cons f fs)
  obtain t ip where f: "f = (t, ip)" by (cases f)
  let ?a = "recordFailedAttempt a t email ip"
  let ?r = "\<lparr>count = count r + 1, last = t, ips = ips r @ [ip],
           locked = (if max_attempts \<le> count r + 1 then Some (t + lockTime) else locked r)\<rparr>"
  from Cons.prems f have w: "t - last r \<le> resetTime" by simp
  have a1: "?a (toLowerCase email) = Some ?r"
    using rfa_within [of a email r t ip] Cons.prems(1) w by simp
  have unf: "failures a email (f # fs) = failures ?a email fs"
    by (simp add: failures_def f)
  show ?case
  proof (cases "fs = []")
    case True
    then show ?thesis using a1 f by (simp add: failures_def)
  next
    case False
    have ww: "within_window (last ?r # map fst fs)"
      using Cons.prems(2) f by simp
    from Cons.IH [of ?a ?r] a1 ww False show ?thesis
      using unf False by auto
  qed
qed

lemma failures_lock:
  assumes "within_window (map fst fs)" "max_attempts \<le> length fs"
  shows "\<exists>r. failures a email fs (toLowerCase email) = Some r \<and> max_attempts \<le> count r
     \<and> locked r = Some (fst (List.last fs) + lockTime)"
proof -
  from assms(2) obtain f fs' where fs: "fs = f # fs'" and ne: "fs' \<noteq> []"
    by (cases fs; cases "tl fs") (auto simp: max_attempts_def)
  obtain t ip where f: "f = (t, ip)" by (cases f)
  obtain r where r: "recordFailedAttempt a t email ip (toLowerCase email) = Some r"
     "1 \<le> count r" "last r = t"
    using rfa_any [of a t email ip] by blast
  have w: "within_window (last r # map fst fs')" using assms(1) fs f r by simp
  from failures_within [of "recordFailedAttempt a t email ip" email r fs'] r(1) w ne obtain r' where
    r': "failures (recordFailedAttempt a t email ip) email fs' (toLowerCase email) = Some r'"
      "count r' = count r + length fs'" "last r' = fst (List.last fs')"
       "max_attempts \<le> count r' \<longrightarrow> locked r' = Some (fst (List.last fs') + lockTime)"
    by blast
  have "failures a email fs = failures (recordFailedAttempt a t email ip) email fs'"
    by (simp add: failures_def fs f)
  moreover have "max_attempts \<le> count r'" using r' r assms(2) fs by simp
  moreover have "List.last fs = List.last fs'" using fs ne by simp
  ultimately show ?thesis using r' by auto
qed

lemma lower_user [simp]:
  "toLowerCase ''user@example.com'' = ''user@example.com''"
  "toLowerCase ''User@example.com'' = ''user@example.com''"
  "toLowerCase ''USER@example.com'' = ''user@example.com''"
  by code_simp+

lemma run_ops5:
  "lockout_run ops5 ''user@example.com'' =
     Some \<lparr>count = 5, last = 4000,
           ips = [''203.0.113.7'', ''203.0.113.7'', ''203.0.113.8'', ''203.0.113.7'', ''203.0.113.7''],
           locked = Some 1804000\<rparr>"
  by (simp add: lockout_run_def ops5_def recordFailedAttempt_def Let_def resetTime_def
        lockTime_def max_attempts_def)

subsection \<open>The lock after repeated failures\<close>

text \<open>
  C1 (as amended). In every state the object can reach, a record whose \<open>locked\<close> field
  is set has a failure count of at least \<open>max_attempts\<close>, and the lock ends
  \<open>lockTime\<close> after the record's last failure. Recording one more failure for that
  identity within \<open>resetTime\<close> of the last one (the lock is then still running)
  increments the count, compares it with \<open>max_attempts\<close> again and sets \<open>locked\<close>
  to \<open>now + lockTime\<close>: with a clock that does not run backwards the lock is never
  shortened, and it is extended by exactly the time elapsed since the last failure.
\<close>

theorem locked_failure_relocks:
  assumes "lockout_run ops (toLowerCase email) = Some r" and "locked r = Some l"
      and "last r \<le> now" and "now - last r \<le> resetTime"
  shows "max_attempts \<le> count r \<and> l = last r + lockTime \<and> now < l \<and>
         recordFailedAttempt (lockout_run ops) now email ip (toLowerCase email) =
           Some \<lparr>count = count r + 1, last = now, ips = ips r @ [ip],
                 locked = Some (now + lockTime)\<rparr> \<and>
         l \<le> now + lockTime \<and> (now + lockTime) - l = now - last r"
proof -
  have "lock_inv r" using run_inv [of ops] assms(1) by (simp add: all_inv_def)
  with assms(2) have inv: "max_attempts \<le> count r" "l = last r + lockTime"
    by (simp_all add: lock_inv_def)
  have "now < l" using inv(2) assms(4) by (simp add: resetTime_def lockTime_def)
  moreover have "recordFailedAttempt (lockout_run ops) now email ip (toLowerCase email) =
           Some \<lparr>count = count r + 1, last = now, ips = ips r @ [ip],
                 locked = Some (now + lockTime)\<rparr>"
    using rfa_within [of "lockout_run ops" email r now ip] assms(1,4) inv(1) by simp
  ultimately show ?thesis using inv assms(3) by simp
qed

theorem locked_failure_relocks_witness:
  "lockout_run ops5 (toLowerCase ''user@example.com'') =
     Some \<lparr>count = 5, last = 4000,
           ips = [''203.0.113.7'', ''203.0.113.7'', ''203.0.113.8'', ''203.0.113.7'', ''203.0.113.7''],
           locked = Some 1804000\<rparr> \<and>
   (4000::int) \<le> 64000 \<and> 64000 - 4000 \<le> resetTime \<and>
   recordFailedAttempt (lockout_run ops5) 64000 ''user@example.com'' ''203.0.113.9''
       (toLowerCase ''user@example.com'') =
     Some \<lparr>count = 6, last = 64000,
           ips = [''203.0.113.7'', ''203.0.113.7'', ''203.0.113.8'', ''203.0.113.7'', ''203.0.113.7'',
                  ''203.0.113.9''],
           locked = Some 1864000\<rparr>"
proof -
  let ?r = "\<lparr>count = 5, last = 4000,
           ips = [''203.0.113.7'', ''203.0.113.7'', ''203.0.113.8'', ''203.0.113.7'', ''203.0.113.7''],
           locked = Some 1804000\<rparr>"
  have h1: "lockout_run ops5 (toLowerCase ''user@example.com'') = Some ?r"
    by (simp add: run_ops5)
  have h2: "locked ?r = Some 1804000" by simp
  have h3: "last ?r \<le> 64000" by simp
  have h4: "64000 - last ?r \<le> resetTime" by (simp add: resetTime_def)
  show ?thesis
    using locked_failure_relocks [OF h1 h2 h3 h4, of "''203.0.113.9''"] h1
    by (simp add: resetTime_def lockTime_def)
qed

text \<open>
  C1 as stated fails: after five failures (the last at 4000 ms) the lock ends at
  1804000 ms; a sixth failure at 64000 ms, well before expiry, moves the end of the lock
  to 1864000 ms.
\<close>

theorem sixth_failure_extends_lock:
  "map_option locked (lockout_run ops5 (toLowerCase ''user@example.com'')) = Some (Some 1804000) \<and>
   (64000::int) < 1804000 \<and>
   map_option locked
     (recordFailedAttempt (lockout_run ops5) 64000 ''user@example.com'' ''203.0.113.9''
        (toLowerCase ''user@example.com'')) = Some (Some 1864000)"
  by (simp add: run_ops5 recordFailedAttempt_def Let_def resetTime_def lockTime_def max_attempts_def)

text \<open>
  C5. After at least \<open>max_attempts\<close> consecutive failures for one identity, each
  within \<open>resetTime\<close> of the one before (from any starting state, the clock reading
  non-negative times), \<open>isLocked\<close> before the lock ends answers locked with a positive
  number of remaining minutes and leaves the map unchanged; from the moment \<open>lockTime\<close>
  has passed since the last failure it answers not locked and has deleted the record.
\<close>

theorem five_failures_lock:
  assumes "within_window (map fst fs)" and "max_attempts \<le> length fs"
      and "0 \<le> fst (List.last fs)"
  shows "(now < fst (List.last fs) + lockTime \<and> valid_time_value (fst (List.last fs) + lockTime) \<longrightarrow>
            (\<exists>m. isLocked (failures a email fs) now email =
                   (Inr (Locked m (fst (List.last fs) + lockTime)), failures a email fs) \<and> 0 < m)) \<and>
         (fst (List.last fs) + lockTime \<le> now \<longrightarrow>
            isLocked (failures a email fs) now email =
              (Inr NotLocked, (failures a email fs)(toLowerCase email := None)))"
proof -
  from failures_lock [OF assms(1,2)] obtain r where
    r: "failures a email fs (toLowerCase email) = Some r"
       "locked r = Some (fst (List.last fs) + lockTime)" by blast
  have t: "truthy (locked r)" using r(2) assms(3) by (simp add: truthy_def lockTime_def)
  show ?thesis using r t
    by (auto simp: isLocked_def Let_def ceil_div_def)
qed

theorem five_failures_lock_witness:
  "within_window (map fst fails5) \<and> max_attempts \<le> length fails5 \<and>
   (\<exists>m. isLocked (failures Map.empty ''user@example.com'' fails5) 5000 ''user@example.com'' =
          (Inr (Locked m 1804000), failures Map.empty ''user@example.com'' fails5) \<and> 0 < m) \<and>
   isLocked (failures Map.empty ''user@example.com'' fails5) 1804000 ''user@example.com'' =
     (Inr NotLocked, (failures Map.empty ''user@example.com'' fails5)(''user@example.com'' := None))"
proof -
  have h1: "within_window (map fst fails5)" by (simp add: fails5_def resetTime_def)
  have h2: "max_attempts \<le> length fails5" by (simp add: fails5_def max_attempts_def)
  have h3: "0 \<le> fst (List.last fails5)" by (simp add: fails5_def)
  have l: "fst (List.last fails5) + lockTime = 1804000" by (simp add: fails5_def lockTime_def)
  have v: "valid_time_value 1804000" by (simp add: valid_time_value_def)
  show ?thesis
    using five_failures_lock [OF h1 h2 h3, of 5000 Map.empty "''user@example.com''"]
          five_failures_lock [OF h1 h2 h3, of 1804000 Map.empty "''user@example.com''"] h1 h2 v
    by (simp add: l)
qed

text \<open>
  C10. When a record is locked and the lock is still running, a failure recorded more than
  \<open>resetTime\<close> after the record's last failure replaces the record by a fresh one with
  count 1 and no lock, and \<open>isLocked\<close> then answers not locked.
\<close>

theorem quiet_failure_clears_lock:
  assumes "a (toLowerCase email) = Some r" and "locked r = Some l" and "now < l"
      and "now - last r > resetTime"
  shows "recordFailedAttempt a now email ip (toLowerCase email) =
           Some \<lparr>count = 1, last = now, ips = [ip], locked = None\<rparr> \<and>
         isLocked (recordFailedAttempt a now email ip) now' email =
           (Inr NotLocked, recordFailedAttempt a now email ip)"
proof -
  have f: "recordFailedAttempt a now email ip (toLowerCase email) =
           Some \<lparr>count = 1, last = now, ips = [ip], locked = None\<rparr>"
    using assms(1,4) by (simp add: recordFailedAttempt_def Let_def)
  then show ?thesis by (simp add: isLocked_def truthy_def)
qed

theorem quiet_failure_clears_lock_witness:
  "lockout_run ops5 (toLowerCase ''user@example.com'') =
     Some \<lparr>count = 5, last = 4000,
           ips = [''203.0.113.7'', ''203.0.113.7'', ''203.0.113.8'', ''203.0.113.7'', ''203.0.113.7''],
           locked = Some 1804000\<rparr> \<and>
   (904001::int) < 1804000 \<and> 904001 - 4000 > resetTime \<and>
   recordFailedAttempt (lockout_run ops5) 904001 ''user@example.com'' ''203.0.113.9''
       (toLowerCase ''user@example.com'') =
     Some \<lparr>count = 1, last = 904001, ips = [''203.0.113.9''], locked = None\<rparr> \<and>
   fst (isLocked (recordFailedAttempt (lockout_run ops5) 904001 ''user@example.com'' ''203.0.113.9'')
      904002 ''user@example.com'') = Inr NotLocked"
proof -
  let ?r = "\<lparr>count = 5, last = 4000,
           ips = [''203.0.113.7'', ''203.0.113.7'', ''203.0.113.8'', ''203.0.113.7'', ''203.0.113.7''],
           locked = Some 1804000\<rparr>"
  have h1: "lockout_run ops5 (toLowerCase ''user@example.com'') = Some ?r"
    by (simp add: run_ops5)
  have h2: "locked ?r = Some 1804000" by simp
  have h3: "(904001::int) < 1804000" by simp
  have h4: "904001 - last ?r > resetTime" by (simp add: resetTime_def)
  show ?thesis
    using quiet_failure_clears_lock [where a = "lockout_run ops5" and email = "''user@example.com''"
        and r = ?r and l = 1804000 and now = 904001 and ip = "''203.0.113.9''" and now' = 904002]
      h1 h4
    by simp
qed

text \<open>
  C6. Whatever failures were recorded before, in whatever state the record is,
  \<open>recordSuccessfulLogin\<close> removes the identity's record: no failure count is left, and
  \<open>isLocked\<close> then answers not locked and leaves the map as it is.
\<close>

theorem recordSuccessfulLogin_clears:
  "recordSuccessfulLogin a email (toLowerCase email) = None \<and>
   isLocked (recordSuccessfulLogin a email) now email =
     (Inr NotLocked, recordSuccessfulLogin a email)"
  by (simp add: recordSuccessfulLogin_def isLocked_def)

section \<open>Properties of the fraud scorer\<close>

lemma analyze_with_recent_decision:
  "decision (fst (analyze_with_recent t recent)) =
     (if riskScore (fst (analyze_with_recent t recent)) > 50 then BLOCKED else APPROVED)"
  by (simp add: analyze_with_recent_def Let_def split: prod.splits)

lemma analyze_with_recent_review:
  "requiresManualReview (fst (analyze_with_recent t recent)) =
     (30 < riskScore (fst (analyze_with_recent t recent)) \<and>
      riskScore (fst (analyze_with_recent t recent)) \<le> 50)"
  by (simp add: analyze_with_recent_def Let_def split: prod.splits)

lemma getRecentTransactions_empty: "getRecentTransactions store now uid ms = []"
  by (simp add: getRecentTransactions_def Transaction_find_def)

text \<open>
  The scoring rules on a history that has been read: amount 1500, at least five recent
  rows, one of the same amount, an address outside the patterns.
\<close>

lemma scenario_with_recent:
  assumes "amount t = 1500" and "5 \<le> length recent"
      and "list_ex (\<lambda>r. row_amount r = amount t) recent"
      and "\<not> isProxy (checkIPReputation (tx_ip t))"
  shows "fst (analyze_with_recent t recent) =
      \<lparr>approved = False, riskScore = 75, flags = [HIGH_VELOCITY, HIGH_VALUE, DUPLICATE],
       requiresManualReview = False, decision = BLOCKED\<rparr>"
proof -
  from assms(3) have dup: "filter (\<lambda>r. row_amount r = amount t) recent \<noteq> []"
    by (auto simp: filter_empty_conv list_ex_iff)
  have ip: "\<not> isProxy (checkIPReputation (tx_ip t))" "\<not> isTor (checkIPReputation (tx_ip t))"
    using assms(4) by (simp_all add: checkIPReputation_def Let_def)
  show ?thesis
    using assms(1,2) dup ip
    by (simp add: analyze_with_recent_def VELOCITY_threshold_def HIGH_VALUE_threshold_def Let_def)
qed

lemma scenario_without_recent:
  assumes "amount t = 1500" and "\<not> isProxy (checkIPReputation (tx_ip t))"
  shows "fst (analyze_with_recent t []) =
      \<lparr>approved = True, riskScore = 20, flags = [HIGH_VALUE],
       requiresManualReview = False, decision = APPROVED\<rparr>"
proof -
  have ip: "\<not> isProxy (checkIPReputation (tx_ip t))" "\<not> isTor (checkIPReputation (tx_ip t))"
    using assms(2) by (simp_all add: checkIPReputation_def Let_def)
  show ?thesis
    using assms(1) ip
    by (simp add: analyze_with_recent_def VELOCITY_threshold_def HIGH_VALUE_threshold_def Let_def)
qed

lemma tx_example_not_proxy: "\<not> isProxy (checkIPReputation (tx_ip tx_example))"
  by (simp add: checkIPReputation_def tx_example_def matches_10_def matches_192_168_def
        matches_172_def)

text \<open>
  C4. The scenario of the claim, on the code: the store holds five transactions of the
  user inside the trailing ten minutes, one of them of the same amount 1500, and the
  address matches no pattern. \<open>getRecentTransactions\<close> answers the empty list all the
  same, because the name \<open>Transaction\<close> is unbound and the error is caught, so that
  \<open>analyzeTransaction\<close> scores 20, decides APPROVED and flags HIGH_VALUE only. Had the
  five rows been read, the rules would have scored 30 + 20 + 25 = 75 with the decision
  BLOCKED and the flags HIGH_VELOCITY, HIGH_VALUE, DUPLICATE, as the claim says.
\<close>

theorem scenario_scored_without_history:
  "amount tx_example = 1500 \<and>
   requested_rows history5 (userId tx_example) (150000 - 600000) = history5 \<and>
   length history5 = 5 \<and>
   list_ex (\<lambda>r. row_amount r = amount tx_example) history5 \<and>
   \<not> isProxy (checkIPReputation (tx_ip tx_example)) \<and>
   getRecentTransactions history5 150000 (userId tx_example) 600000 = [] \<and>
   riskScore (fst (analyzeTransaction tx_example history5 150000)) = 20 \<and>
   decision (fst (analyzeTransaction tx_example history5 150000)) = APPROVED \<and>
   flags (fst (analyzeTransaction tx_example history5 150000)) = [HIGH_VALUE] \<and>
   riskScore (fst (analyze_with_recent tx_example history5)) = 75 \<and>
   decision (fst (analyze_with_recent tx_example history5)) = BLOCKED \<and>
   flags (fst (analyze_with_recent tx_example history5)) = [HIGH_VELOCITY, HIGH_VALUE, DUPLICATE]"
proof -
  have h1: "amount tx_example = 1500" by (simp add: tx_example_def)
  have h2: "5 \<le> length history5" by (simp add: history5_def)
  have h3: "list_ex (\<lambda>r. row_amount r = amount tx_example) history5"
    by (simp add: history5_def tx_example_def)
  have rows: "requested_rows history5 (userId tx_example) (150000 - 600000) = history5"
    by (simp add: requested_rows_def history5_def tx_example_def)
  have len: "length history5 = 5" by (simp add: history5_def)
  have code: "fst (analyzeTransaction tx_example history5 150000) =
      \<lparr>approved = True, riskScore = 20, flags = [HIGH_VALUE],
       requiresManualReview = False, decision = APPROVED\<rparr>"
    using scenario_without_recent [OF h1 tx_example_not_proxy]
    by (simp add: analyzeTransaction_def getRecentTransactions_empty)
  have rules: "fst (analyze_with_recent tx_example history5) =
      \<lparr>approved = False, riskScore = 75, flags = [HIGH_VELOCITY, HIGH_VALUE, DUPLICATE],
       requiresManualReview = False, decision = BLOCKED\<rparr>"
    by (rule scenario_with_recent [OF h1 h2 h3 tx_example_not_proxy])
  show ?thesis
    using h1 h3 rows len tx_example_not_proxy code rules
    by (simp add: getRecentTransactions_empty)
qed

text \<open>
  C7. The score and the decision depend on the amount, the recent history and the source
  address only. Two transactions that agree on the amount and the address, whatever their
  identifiers and users, get the same score and decision from the scoring rules on any
  given history; and two calls of \<open>analyzeTransaction\<close> for them, on any stores at any
  times, return the same score and decision whenever the recent history read by the one
  is the recent history read by the other.
\<close>

theorem analyzeTransaction_declared_inputs:
  assumes "amount t1 = amount t2" and "tx_ip t1 = tx_ip t2"
  shows "riskScore (fst (analyze_with_recent t1 recent)) =
           riskScore (fst (analyze_with_recent t2 recent)) \<and>
         decision (fst (analyze_with_recent t1 recent)) =
           decision (fst (analyze_with_recent t2 recent)) \<and>
         (getRecentTransactions store1 now1 (userId t1) 600000 =
            getRecentTransactions store2 now2 (userId t2) 600000 \<longrightarrow>
          riskScore (fst (analyzeTransaction t1 store1 now1)) =
            riskScore (fst (analyzeTransaction t2 store2 now2)) \<and>
          decision (fst (analyzeTransaction t1 store1 now1)) =
            decision (fst (analyzeTransaction t2 store2 now2)))"
proof -
  have rules: "riskScore (fst (analyze_with_recent t1 r)) = riskScore (fst (analyze_with_recent t2 r)) \<and>
      decision (fst (analyze_with_recent t1 r)) = decision (fst (analyze_with_recent t2 r))" for r
    using assms by (simp add: analyze_with_recent_def Let_def split: prod.splits)
  show ?thesis
    using rules [of recent] rules [of "getRecentTransactions store2 now2 (userId t2) 600000"]
    by (simp add: analyzeTransaction_def)
qed

theorem analyzeTransaction_declared_inputs_witness:
  "amount tx_example = amount tx_other \<and> tx_ip tx_example = tx_ip tx_other \<and>
   tx_id tx_example \<noteq> tx_id tx_other \<and> userId tx_example \<noteq> userId tx_other \<and>
   getRecentTransactions history5 150000 (userId tx_example) 600000 =
     getRecentTransactions history5 150000 (userId tx_other) 600000 \<and>
   riskScore (fst (analyze_with_recent tx_example history5)) =
     riskScore (fst (analyze_with_recent tx_other history5)) \<and>
   decision (fst (analyze_with_recent tx_example history5)) =
     decision (fst (analyze_with_recent tx_other history5)) \<and>
   riskScore (fst (analyzeTransaction tx_example history5 150000)) =
     riskScore (fst (analyzeTransaction tx_other history5 150000)) \<and>
   decision (fst (analyzeTransaction tx_example history5 150000)) =
     decision (fst (analyzeTransaction tx_other history5 150000))"
proof -
  have h1: "amount tx_example = amount tx_other" by (simp add: tx_example_def tx_other_def)
  have h2: "tx_ip tx_example = tx_ip tx_other" by (simp add: tx_example_def tx_other_def)
  have h3: "tx_id tx_example \<noteq> tx_id tx_other \<and> userId tx_example \<noteq> userId tx_other"
    by (simp add: tx_example_def tx_other_def)
  have h4: "getRecentTransactions history5 150000 (userId tx_example) 600000 =
     getRecentTransactions history5 150000 (userId tx_other) 600000"
    by (simp add: getRecentTransactions_empty)
  show ?thesis
    using analyzeTransaction_declared_inputs [OF h1 h2, of history5 history5 150000 history5 150000]
      h1 h2 h3 h4
    by simp
qed

section \<open>Retention of the audit categories\<close>

text \<open>
  C9. Every category's schema declares exactly one time-to-live index, on \<open>timestamp\<close>,
  and its expiry is the policy's retention: 7776000 seconds (90 days) for SECURITY and
  CONFIDENTIAL, 220752000 seconds (7 years) for FINANCIAL and PRIVACY.
\<close>

theorem declared_retention_matches_policy:
  "declared_retention (schema_of c) = [(''timestamp'', policy_retention_seconds c)] \<and>
   policy_retention_seconds SECURITY = 7776000 \<and>
   policy_retention_seconds CONFIDENTIAL = 7776000 \<and>
   policy_retention_seconds FINANCIAL = 220752000 \<and>
   policy_retention_seconds PRIVACY = 220752000"
  by (cases c)
     (simp_all add: declared_retention_def FinancialSchema_def SecuritySchema_def
        ConfidentialSchema_def PrivacySchema_def base_indexes_def seconds_per_day_def)

section \<open>Properties of the compliance monitor\<close>

subsection \<open>Auxiliary facts\<close>

lemma show_nat_digit: "n < 10 \<Longrightarrow> show_nat n = [digit_char n]"
  by (simp add: show_nat.simps)

lemma percent_scaled_bounds:
  assumes "0 < t"
  shows "2 * t * percent_scaled d p t \<le> 2 * (p * 100 * 10 ^ d) + t"
    and "2 * (p * 100 * 10 ^ d) + t < 2 * t * percent_scaled d p t + 2 * t"
proof -
  show "2 * t * percent_scaled d p t \<le> 2 * (p * 100 * 10 ^ d) + t"
    unfolding percent_scaled_def by (rule times_div_less_eq_dividend)
  have "0 < 2 * t" using assms by simp
  from dividend_less_times_div [OF this, of "2 * (p * 100 * 10 ^ d) + t"]
  show "2 * (p * 100 * 10 ^ d) + t < 2 * t * percent_scaled d p t + 2 * t"
    unfolding percent_scaled_def by (simp add: add.commute)
qed

lemma nearest_real:
  fixes n a t :: real
  assumes "0 < t" and "2 * t * n \<le> 2 * a + t" and "2 * a + t < 2 * t * n + 2 * t"
  shows "\<bar>n - a / t\<bar> \<le> 1 / 2"
proof -
  have u: "a / t \<le> n + 1 / 2"
  proof -
    have "a \<le> (n + 1 / 2) * t" using assms(3) by (simp add: algebra_simps)
    then show ?thesis using assms(1) by (simp add: pos_divide_le_eq)
  qed
  have l: "n - 1 / 2 \<le> a / t"
  proof -
    have "(n - 1 / 2) * t \<le> a" using assms(2) by (simp add: algebra_simps)
    then show ?thesis using assms(1) by (simp add: pos_le_divide_eq)
  qed
  show ?thesis using u l by linarith
qed

lemma percent_scaled_nearest:
  assumes "0 < t"
  shows "\<bar>real (percent_scaled d p t) - 100 * 10 ^ d * real p / real t\<bar> \<le> 1 / 2"
proof -
  define n where "n = percent_scaled d p t"
  define A where "A = p * 100 * 10 ^ d"
  from percent_scaled_bounds [where t = t and d = d and p = p] assms
  have b1: "2 * t * n \<le> 2 * A + t" and b2: "2 * A + t < 2 * t * n + 2 * t"
    by (simp_all add: n_def A_def)
  have "real (2 * t * n) \<le> real (2 * A + t)" using b1 by (rule of_nat_mono)
  then have r1: "2 * real t * real n \<le> 2 * real A + real t" by simp
  have "real (2 * A + t) < real (2 * t * n + 2 * t)" using b2 by (simp only: of_nat_less_iff)
  then have r2: "2 * real A + real t < 2 * real t * real n + 2 * real t" by simp
  have tp: "0 < real t" using assms by simp
  have "\<bar>real n - real A / real t\<bar> \<le> 1 / 2"
    using tp r1 r2 by (rule nearest_real)
  moreover have "real A = 100 * 10 ^ d * real p" by (simp add: A_def)
  ultimately show ?thesis by (simp add: n_def)
qed

lemma length_seven: "length [a, b, c, d, e, f, g] = 7"
  by simp

lemma run_fields:
  "summary.totalChecks (fst (runContinuousChecks env clock m)) = 7"
  "details (fst (runContinuousChecks env clock m)) =
     [checkAuth env, checkEncryption, checkDatabase env, checkLogs env,
      checkRateLimit, checkCORS, checkTokenExpiry env]"
  "summary.failed (fst (runContinuousChecks env clock m)) =
     length (filter (\<lambda>r. \<not> check_result.passed r) (details (fst (runContinuousChecks env clock m))))"
  "summary.passed (fst (runContinuousChecks env clock m)) =
     7 - summary.failed (fst (runContinuousChecks env clock m))"
  "passRate (fst (runContinuousChecks env clock m)) =
     percentFixed 1 (summary.passed (fst (runContinuousChecks env clock m))) 7 @ ''%''"
  unfolding runContinuousChecks_def Let_def length_seven
  by (simp_all del: filter.simps)

lemma run_failed_le: "summary.failed (fst (runContinuousChecks env clock m)) \<le> 7"
proof -
  have "length (filter (\<lambda>r. \<not> check_result.passed r) (details (fst (runContinuousChecks env clock m))))
        \<le> length (details (fst (runContinuousChecks env clock m)))"
    by (rule length_filter_le)
  then show ?thesis by (simp add: run_fields(3) run_fields(2))
qed

text \<open>The eight pass rates a run of seven checks can print, computed step by step.\<close>

lemma quotient_seven:
  "to_double 0 7 = (0, 1)"
  "to_double 1 7 = (5146971002709138, 36028797018963968)"
  "to_double 2 7 = (5146971002709138, 18014398509481984)"
  "to_double 3 7 = (7720456504063707, 18014398509481984)"
  "to_double 4 7 = (5146971002709138, 9007199254740992)"
  "to_double 5 7 = (6433713753386423, 9007199254740992)"
  "to_double 6 7 = (7720456504063707, 9007199254740992)"
  "to_double 7 7 = (4503599627370496, 4503599627370496)"
  by (simp_all add: to_double_def round_half_even_def bit_length.simps Let_def)

lemma to_double_zero: "to_double 0 D = (0, 1)"
  by (simp add: to_double_def)

lemma quotient_seven_one: "to_double (Suc 0) 7 = (5146971002709138, 36028797018963968)"
  using quotient_seven(2) by simp

lemma times_hundred_seven:
  "to_double 514697100270913800 36028797018963968 = (8042142191733028, 562949953421312)"
  "to_double 514697100270913800 18014398509481984 = (8042142191733028, 281474976710656)"
  "to_double 772045650406370700 18014398509481984 = (6031606643799771, 140737488355328)"
  "to_double 514697100270913800 9007199254740992 = (8042142191733028, 140737488355328)"
  "to_double 643371375338642300 9007199254740992 = (5026338869833143, 70368744177664)"
  "to_double 772045650406370700 9007199254740992 = (6031606643799771, 70368744177664)"
  "to_double 450359962737049600 4503599627370496 = (7036874417766400, 70368744177664)"
  by (simp_all add: to_double_def round_half_even_def bit_length.simps Let_def)

lemma percentFixed_seven_values:
  "percentFixed 1 0 7 = ''0.0''"
  "percentFixed 1 1 7 = ''14.3''"
  "percentFixed 1 2 7 = ''28.6''"
  "percentFixed 1 3 7 = ''42.9''"
  "percentFixed 1 4 7 = ''57.1''"
  "percentFixed 1 5 7 = ''71.4''"
  "percentFixed 1 6 7 = ''85.7''"
  "percentFixed 1 7 7 = ''100.0''"
  by (simp_all add: percentFixed_def quotient_seven quotient_seven_one to_double_zero
        times_hundred_seven toFixed_def pad_zeros_def show_nat.simps digit_char_def Let_def)

lemma percent_scaled_seven_values:
  "show_nat (percent_scaled 1 0 7 div 10) @ ''.'' @ show_nat (percent_scaled 1 0 7 mod 10) = ''0.0''"
  "show_nat (percent_scaled 1 1 7 div 10) @ ''.'' @ show_nat (percent_scaled 1 1 7 mod 10) = ''14.3''"
  "show_nat (percent_scaled 1 2 7 div 10) @ ''.'' @ show_nat (percent_scaled 1 2 7 mod 10) = ''28.6''"
  "show_nat (percent_scaled 1 3 7 div 10) @ ''.'' @ show_nat (percent_scaled 1 3 7 mod 10) = ''42.9''"
  "show_nat (percent_scaled 1 4 7 div 10) @ ''.'' @ show_nat (percent_scaled 1 4 7 mod 10) = ''57.1''"
  "show_nat (percent_scaled 1 5 7 div 10) @ ''.'' @ show_nat (percent_scaled 1 5 7 mod 10) = ''71.4''"
  "show_nat (percent_scaled 1 6 7 div 10) @ ''.'' @ show_nat (percent_scaled 1 6 7 mod 10) = ''85.7''"
  "show_nat (percent_scaled 1 7 7 div 10) @ ''.'' @ show_nat (percent_scaled 1 7 7 mod 10) = ''100.0''"
  by (simp_all add: percent_scaled_def show_nat.simps digit_char_def)

lemma percentFixed_seven:
  assumes "p \<le> 7"
  shows "percentFixed 1 p 7 =
     show_nat (percent_scaled 1 p 7 div 10) @ ''.'' @ show_nat (percent_scaled 1 p 7 mod 10)"
proof -
  from assms have "p = 0 \<or> p = 1 \<or> p = 2 \<or> p = 3 \<or> p = 4 \<or> p = 5 \<or> p = 6 \<or> p = 7"
    by arith
  then show ?thesis
    by (elim disjE) (simp_all only: percentFixed_seven_values percent_scaled_seven_values)
qed

text \<open>A rate where rounding the double and rounding the exact quotient differ.\<close>

lemma percentFixed_609_1120:
  "percentFixed 2 609 1120 = ''54.37''"
  "percent_scaled 2 609 1120 = 5438"
proof -
  have q: "to_double 609 1120 = (4897664594765414, 9007199254740992)"
    by (simp add: to_double_def round_half_even_def bit_length.simps Let_def)
  have x: "to_double 489766459476541400 9007199254740992 = (7652600929320959, 140737488355328)"
    by (simp add: to_double_def round_half_even_def bit_length.simps Let_def)
  show "percentFixed 2 609 1120 = ''54.37''"
    by (simp add: percentFixed_def q x toFixed_def pad_zeros_def show_nat.simps digit_char_def Let_def)
  show "percent_scaled 2 609 1120 = 5438"
    by (simp add: percent_scaled_def)
qed

lemma parseInt_6h: "parseInt ''6h'' = Some 6"
  by (simp add: parseInt_def is_space_def digit_value_def is_digit_def digits_value_def)

lemma percentFixed_6_7: "percentFixed 1 6 7 = ''85.7''"
  by (rule percentFixed_seven_values)

lemma spec_passRate_6_7: "spec_passRate 6 7 = ''0.86''"
  by (simp add: spec_passRate_def ratioFixed_def pad_zeros_def show_nat.simps digit_char_def)

lemma checks_weak_secret:
  "check_result.passed (checkAuth env_weak_secret) = False"
  "check_result.passed checkEncryption = True"
  "check_result.passed (checkDatabase env_weak_secret) = True"
  "check_result.passed (checkLogs env_weak_secret) = True"
  "check_result.passed checkRateLimit = True"
  "check_result.passed checkCORS = True"
  "check_result.passed (checkTokenExpiry env_weak_secret) = True"
  by (simp_all add: checkAuth_def checkEncryption_def checkDatabase_def checkLogs_def
        checkRateLimit_def checkCORS_def checkTokenExpiry_def env_weak_secret_def env_ok_def
        unset_def endsWith_def parseInt_6h exceeds_def MAX_HOURS_def)

lemma run_weak_secret:
  "summary.failed (fst (runContinuousChecks env_weak_secret clock0 monitor0)) = 1"
  "summary.passed (fst (runContinuousChecks env_weak_secret clock0 monitor0)) = 6"
  "passRate (fst (runContinuousChecks env_weak_secret clock0 monitor0)) = ''85.7%''"
proof -
  show f: "summary.failed (fst (runContinuousChecks env_weak_secret clock0 monitor0)) = 1"
    by (simp add: run_fields(3) run_fields(2) checks_weak_secret)
  then show p: "summary.passed (fst (runContinuousChecks env_weak_secret clock0 monitor0)) = 6"
    by (simp add: run_fields(4))
  then show "passRate (fst (runContinuousChecks env_weak_secret clock0 monitor0)) = ''85.7%''"
    using percentFixed_6_7 by (simp add: run_fields(5))
qed

lemma checkDatabase_throws:
  assumes "db_test_query env = Inl msg"
  shows "issues (checkDatabase env) =
           (if readyState env \<noteq> 1
            then [''Database not connected: '' @
                    (case stateMap (readyState env) of Some n \<Rightarrow> n | None \<Rightarrow> ''unknown state'')]
            else []) @ [''Database connectivity error: '' @ msg]"
    and "\<not> check_result.passed (checkDatabase env)"
  using assms by (simp_all add: checkDatabase_def Let_def)

lemma checkLogs_throws:
  assumes "logs_recent env = Inl msg \<or> (logs_recent env = Inr 0 \<and> logs_total env = Inl msg)"
  shows "issues (checkLogs env) = [''Error checking logs: '' @ msg]"
    and "\<not> check_result.passed (checkLogs env)"
  using assms by (auto simp add: checkLogs_def Let_def)

lemma issues_db_down:
  "issues (checkDatabase env_db_down) =
     [''Database not connected: disconnected'', ''Database connectivity error: timeout'']"
  by (simp add: checkDatabase_def env_db_down_def env_ok_def stateMap_def Let_def)

lemma foldl_add_sum_list:
  "foldl (\<lambda>s r. s + f r) a xs = a + sum_list (map f xs)" for a :: nat
  by (induction xs arbitrary: a) simp_all

lemma report_start_window:
  assumes "p \<notin> set inherited_properties"
  shows "report_start now p = Some (now - spec_window p)"
  using assms by (simp add: report_start_def ms_table_def spec_window_def)

lemma selected_runs:
  "[r. (t, r) \<leftarrow> es, (s :: int) \<le> t] = map snd (filter (\<lambda>(t, r). s \<le> t) es)"
  by (induction es) auto

lemma runs_in_window_filter:
  "runs_in_window m now p =
     map snd (filter (\<lambda>(t, r). now - spec_window p \<le> t) (monitor.results m))"
  unfolding runs_in_window_def by (rule selected_runs)

lemma generateReport_unfold:
  assumes "p \<notin> set inherited_properties"
  shows "generateReport m now stamp (Some p) =
     (let runs = runs_in_window m now p in
      if runs = [] then NoChecksRun p ''No checks run'' stamp
      else Report
        \<lparr>period = p, startTime = now - spec_window p, endTime = now, totalRuns = length runs,
         totalChecks = sum_list (map summary.totalChecks runs),
         totalPassed = sum_list (map summary.passed runs),
         totalFailed = sum_list (map summary.failed runs),
         averagePassRate =
           percentFixed 2 (sum_list (map summary.passed runs))
             (sum_list (map summary.totalChecks runs)) @ ''%'',
         complianceStatus =
           (if sum_list (map summary.failed runs) = 0 then COMPLIANT else NON_COMPLIANT),
         results = runs\<rparr>)"
  by (simp add: generateReport_def report_start_window [OF assms] runs_in_window_filter
        foldl_add_sum_list Let_def)

lemma checks_env_ok:
  "check_result.passed (checkAuth env_ok) = True"
  "check_result.passed checkEncryption = True"
  "check_result.passed (checkDatabase env_ok) = True"
  "check_result.passed (checkLogs env_ok) = True"
  "check_result.passed checkRateLimit = True"
  "check_result.passed checkCORS = True"
  "check_result.passed (checkTokenExpiry env_ok) = True"
  by (simp_all add: checkAuth_def checkEncryption_def checkDatabase_def checkLogs_def
        checkRateLimit_def checkCORS_def checkTokenExpiry_def env_ok_def
        unset_def endsWith_def parseInt_6h exceeds_def MAX_HOURS_def)

lemma run_results:
  "monitor.results (snd (runContinuousChecks env clock \<lparr>monitor.results = [], auditLog = []\<rparr>)) =
     [(key_time clock, fst (runContinuousChecks env clock \<lparr>monitor.results = [], auditLog = []\<rparr>))]"
  unfolding runContinuousChecks_def Let_def length_seven
  by (simp del: filter.simps)

lemma monitor1_results:
  "monitor.results monitor1 =
     [(1002, fst (runContinuousChecks env_ok clock0 \<lparr>monitor.results = [], auditLog = []\<rparr>))]"
  by (simp add: monitor1_def run_results clock0_def)

lemma run_env_ok_failed:
  "summary.failed (fst (runContinuousChecks env_ok clock m)) = 0"
  by (simp add: run_fields(3) run_fields(2) checks_env_ok)

lemma not_inherited_1h: "''1h'' \<notin> set inherited_properties"
  by (simp add: inherited_properties_def)

subsection \<open>The summary of a run\<close>

text \<open>
  C2 (as amended). Every run returns a summary over the seven registered checks:
  \<open>totalChecks\<close> is 7, \<open>details\<close> has seven results, \<open>failed\<close> counts the results
  that did not pass and \<open>passed + failed = totalChecks\<close>. \<open>passRate\<close> is the
  percentage \<open>100 * passed / total\<close> printed with one decimal and a percent sign: the
  printed number of tenths is within one half of the exact value, so the rate it states is
  within 0.0005 of \<open>passed / total\<close>.
\<close>

theorem runContinuousChecks_summary:
  "summary.totalChecks (fst (runContinuousChecks env clock m)) = 7 \<and>
   length (details (fst (runContinuousChecks env clock m))) = 7 \<and>
   summary.passed (fst (runContinuousChecks env clock m)) +
     summary.failed (fst (runContinuousChecks env clock m)) =
     summary.totalChecks (fst (runContinuousChecks env clock m)) \<and>
   summary.failed (fst (runContinuousChecks env clock m)) =
     length (filter (\<lambda>r. \<not> check_result.passed r) (details (fst (runContinuousChecks env clock m)))) \<and>
   passRate (fst (runContinuousChecks env clock m)) =
     show_nat (percent_scaled 1 (summary.passed (fst (runContinuousChecks env clock m))) 7 div 10) @
     ''.'' @
     show_nat (percent_scaled 1 (summary.passed (fst (runContinuousChecks env clock m))) 7 mod 10) @
     ''%'' \<and>
   \<bar>real (percent_scaled 1 (summary.passed (fst (runContinuousChecks env clock m))) 7) / 10 -
      100 * real (summary.passed (fst (runContinuousChecks env clock m))) / 7\<bar> \<le> 1 / 20"
proof -
  let ?s = "fst (runContinuousChecks env clock m)"
  have a: "summary.totalChecks ?s = 7" by (rule run_fields(1))
  have b: "length (details ?s) = 7" by (simp add: run_fields(2))
  have c: "summary.passed ?s + summary.failed ?s = summary.totalChecks ?s"
    using run_failed_le [of env clock m] by (simp add: run_fields(4) a)
  have d: "passRate ?s =
     show_nat (percent_scaled 1 (summary.passed ?s) 7 div 10) @ ''.'' @
     show_nat (percent_scaled 1 (summary.passed ?s) 7 mod 10) @ ''%''"
  proof -
    have "summary.passed ?s \<le> 7" by (simp add: run_fields(4))
    from percentFixed_seven [OF this] show ?thesis by (simp add: run_fields(5))
  qed
  have "\<bar>real (percent_scaled 1 (summary.passed ?s) 7) - 100 * 10 ^ 1 * real (summary.passed ?s) / real 7\<bar> \<le> 1 / 2"
    by (rule percent_scaled_nearest) simp
  then have e: "\<bar>real (percent_scaled 1 (summary.passed ?s) 7) / 10 - 100 * real (summary.passed ?s) / 7\<bar> \<le> 1 / 20"
    by (simp add: abs_le_iff field_simps)
  show ?thesis using a b c d e run_fields(3) [of env clock m] by simp
qed

text \<open>
  C2 as stated fails on the format of \<open>passRate\<close>: with one failing check out of seven
  the field is \<open>85.7%\<close>, a percentage with one decimal, where \<open>passed/total\<close> to two
  decimals is \<open>0.86\<close>.
\<close>

theorem passRate_is_one_decimal_percentage:
  "summary.passed (fst (runContinuousChecks env_weak_secret clock0 monitor0)) = 6 \<and>
   summary.totalChecks (fst (runContinuousChecks env_weak_secret clock0 monitor0)) = 7 \<and>
   passRate (fst (runContinuousChecks env_weak_secret clock0 monitor0)) = ''85.7%'' \<and>
   spec_passRate 6 7 = ''0.86'' \<and>
   passRate (fst (runContinuousChecks env_weak_secret clock0 monitor0)) \<noteq> spec_passRate 6 7"
  by (simp add: run_weak_secret run_fields(1) spec_passRate_6_7)

text \<open>
  C3 (as amended). The two checks that query the store catch its errors themselves. When
  the query of \<open>checkDatabase\<close> throws, the check does not pass and the last of its
  issues is the error message behind the prefix \<open>Database connectivity error: \<close>; when a
  query of \<open>checkLogs\<close> throws, the check does not pass and its issues are the message
  behind \<open>Error checking logs: \<close>. In both cases the run still returns its summary over
  all seven checks, with at least one failure counted.
\<close>

theorem throwing_check_is_reported:
  "(db_test_query env = Inl msg \<longrightarrow>
      \<not> check_result.passed (checkDatabase env) \<and> issues (checkDatabase env) \<noteq> [] \<and>
      List.last (issues (checkDatabase env)) = ''Database connectivity error: '' @ msg \<and>
      1 \<le> summary.failed (fst (runContinuousChecks env clock m))) \<and>
   (logs_recent env = Inl msg \<or> (logs_recent env = Inr 0 \<and> logs_total env = Inl msg) \<longrightarrow>
      \<not> check_result.passed (checkLogs env) \<and>
      issues (checkLogs env) = [''Error checking logs: '' @ msg] \<and>
      1 \<le> summary.failed (fst (runContinuousChecks env clock m))) \<and>
   details (fst (runContinuousChecks env clock m)) =
     [checkAuth env, checkEncryption, checkDatabase env, checkLogs env,
      checkRateLimit, checkCORS, checkTokenExpiry env] \<and>
   summary.totalChecks (fst (runContinuousChecks env clock m)) = 7 \<and>
   summary.passed (fst (runContinuousChecks env clock m)) +
     summary.failed (fst (runContinuousChecks env clock m)) = 7"
proof -
  let ?s = "fst (runContinuousChecks env clock m)"
  have db: "1 \<le> summary.failed ?s" if "\<not> check_result.passed (checkDatabase env)"
    using that by (simp add: run_fields(3) run_fields(2))
  have lg: "1 \<le> summary.failed ?s" if "\<not> check_result.passed (checkLogs env)"
    using that by (simp add: run_fields(3) run_fields(2))
  have sum: "summary.passed ?s + summary.failed ?s = 7"
    using run_failed_le [of env clock m] by (simp add: run_fields(4))
  have c1: "db_test_query env = Inl msg \<longrightarrow>
      \<not> check_result.passed (checkDatabase env) \<and> issues (checkDatabase env) \<noteq> [] \<and>
      List.last (issues (checkDatabase env)) = ''Database connectivity error: '' @ msg \<and>
      1 \<le> summary.failed ?s"
    using db by (simp add: checkDatabase_throws)
  have c2: "logs_recent env = Inl msg \<or> (logs_recent env = Inr 0 \<and> logs_total env = Inl msg) \<longrightarrow>
      \<not> check_result.passed (checkLogs env) \<and>
      issues (checkLogs env) = [''Error checking logs: '' @ msg] \<and>
      1 \<le> summary.failed ?s"
    using lg checkLogs_throws [of env msg] by blast
  show ?thesis using c1 c2 sum run_fields(1,2) [of env clock m] by blast
qed

theorem throwing_check_is_reported_witness:
  "db_test_query env_db_down = Inl ''timeout'' \<and> logs_recent env_db_down = Inl ''timeout'' \<and>
   \<not> check_result.passed (checkDatabase env_db_down) \<and>
   List.last (issues (checkDatabase env_db_down)) = ''Database connectivity error: timeout'' \<and>
   issues (checkLogs env_db_down) = [''Error checking logs: timeout''] \<and>
   summary.totalChecks (fst (runContinuousChecks env_db_down clock0 monitor0)) = 7 \<and>
   1 \<le> summary.failed (fst (runContinuousChecks env_db_down clock0 monitor0))"
proof -
  have h1: "db_test_query env_db_down = Inl ''timeout''"
    by (simp add: env_db_down_def env_ok_def)
  have h2: "logs_recent env_db_down = Inl ''timeout''"
    by (simp add: env_db_down_def env_ok_def)
  show ?thesis
    using throwing_check_is_reported [of env_db_down "''timeout''" clock0 monitor0] h1 h2
    by simp
qed

text \<open>
  C3 as stated fails on the issues list: with the connection closed and the query timing
  out, \<open>checkDatabase\<close> reports two issues, the second being the prefixed message, not
  the bare error message alone.
\<close>

theorem caught_error_issues_are_prefixed:
  "db_test_query env_db_down = Inl ''timeout'' \<and>
   issues (checkDatabase env_db_down) =
     [''Database not connected: disconnected'', ''Database connectivity error: timeout''] \<and>
   issues (checkDatabase env_db_down) \<noteq> [''timeout'']"
  by (simp add: issues_db_down) (simp add: env_db_down_def env_ok_def)

subsection \<open>The report\<close>

text \<open>
  C8 (as amended). For a period that does not name an inherited property of the table
  object, \<open>generateReport\<close> selects the stored runs whose key is at or after
  \<open>now - window\<close> (one hour, 24 hours, 7 days, 30 days, and 24 hours for any other
  period or none). When no run is selected the answer is the message \<open>No checks run\<close>,
  without totals or status. Otherwise the report carries the number of selected runs, the
  sums of their \<open>totalChecks\<close>, \<open>passed\<close> and \<open>failed\<close>, the average pass rate
  (the percentage of the summed \<open>passed\<close> over the summed \<open>totalChecks\<close>, computed in
  double precision and printed with two decimals), and the status COMPLIANT exactly when
  the summed failures are zero.
\<close>

theorem generateReport_window_totals:
  assumes "p \<notin> set inherited_properties"
  shows "(runs_in_window m now p = [] \<longrightarrow>
            generateReport m now stamp (Some p) = NoChecksRun p ''No checks run'' stamp) \<and>
         (runs_in_window m now p \<noteq> [] \<longrightarrow>
            generateReport m now stamp (Some p) =
              Report
                \<lparr>period = p, startTime = now - spec_window p, endTime = now,
                 totalRuns = length (runs_in_window m now p),
                 totalChecks = sum_list (map summary.totalChecks (runs_in_window m now p)),
                 totalPassed = sum_list (map summary.passed (runs_in_window m now p)),
                 totalFailed = sum_list (map summary.failed (runs_in_window m now p)),
                 averagePassRate =
                   percentFixed 2 (sum_list (map summary.passed (runs_in_window m now p)))
                     (sum_list (map summary.totalChecks (runs_in_window m now p))) @ ''%'',
                 complianceStatus =
                   (if sum_list (map summary.failed (runs_in_window m now p)) = 0
                    then COMPLIANT else NON_COMPLIANT),
                 results = runs_in_window m now p\<rparr> \<and>
            (reported_status (generateReport m now stamp (Some p)) = Some COMPLIANT) =
              (sum_list (map summary.failed (runs_in_window m now p)) = 0)) \<and>
         generateReport m now stamp None = generateReport m now stamp (Some ''24h'')"
proof -
  have d: "generateReport m now stamp None = generateReport m now stamp (Some ''24h'')"
    by (simp add: generateReport_def)
  show ?thesis
    using generateReport_unfold [OF assms, of m now stamp] d
    by (simp add: Let_def reported_status_def)
qed

theorem generateReport_window_totals_witness:
  "''1h'' \<notin> set inherited_properties \<and>
   runs_in_window monitor1 2000 ''1h'' \<noteq> [] \<and>
   runs_in_window monitor1 3601003 ''1h'' = [] \<and>
   reported_status (generateReport monitor1 2000 2001 (Some ''1h'')) = Some COMPLIANT \<and>
   generateReport monitor1 3601003 3601004 (Some ''1h'') = NoChecksRun ''1h'' ''No checks run'' 3601004"
proof -
  have w1: "runs_in_window monitor1 2000 ''1h'' =
      [fst (runContinuousChecks env_ok clock0 \<lparr>monitor.results = [], auditLog = []\<rparr>)]"
    by (simp add: runs_in_window_def monitor1_results spec_window_def)
  have w2: "runs_in_window monitor1 3601003 ''1h'' = []"
    by (simp add: runs_in_window_def monitor1_results spec_window_def)
  from generateReport_window_totals [OF not_inherited_1h, of monitor1 2000 2001]
  have "runs_in_window monitor1 2000 ''1h'' \<noteq> [] \<longrightarrow>
      (reported_status (generateReport monitor1 2000 2001 (Some ''1h'')) = Some COMPLIANT) =
      (sum_list (map summary.failed (runs_in_window monitor1 2000 ''1h'')) = 0)"
    by blast
  then have a: "reported_status (generateReport monitor1 2000 2001 (Some ''1h'')) = Some COMPLIANT"
    by (simp add: w1 run_env_ok_failed)
  from generateReport_window_totals [OF not_inherited_1h, of monitor1 3601003 3601004]
  have "runs_in_window monitor1 3601003 ''1h'' = [] \<longrightarrow>
      generateReport monitor1 3601003 3601004 (Some ''1h'') =
        NoChecksRun ''1h'' ''No checks run'' 3601004"
    by blast
  then have b: "generateReport monitor1 3601003 3601004 (Some ''1h'') =
        NoChecksRun ''1h'' ''No checks run'' 3601004"
    by (simp add: w2)
  show ?thesis using a b w1 w2 not_inherited_1h by simp
qed

text \<open>
  C8 as stated fails when the window holds no run: the failures in the window sum to zero,
  yet the answer is the message \<open>No checks run\<close> and states no COMPLIANT status.
\<close>

theorem empty_window_reports_no_status:
  "sum_list (map summary.failed (runs_in_window monitor1 3601003 ''1h'')) = 0 \<and>
   generateReport monitor1 3601003 3601004 (Some ''1h'') =
     NoChecksRun ''1h'' ''No checks run'' 3601004 \<and>
   reported_status (generateReport monitor1 3601003 3601004 (Some ''1h'')) \<noteq> Some COMPLIANT"
proof -
  have w2: "runs_in_window monitor1 3601003 ''1h'' = []"
    by (simp add: runs_in_window_def monitor1_results spec_window_def)
  have g: "generateReport monitor1 3601003 3601004 (Some ''1h'') =
     NoChecksRun ''1h'' ''No checks run'' 3601004"
    by (simp add: generateReport_def report_start_def ms_table_def monitor1_results Let_def)
  show ?thesis by (simp add: w2 g reported_status_def)
qed

end
